theory Spec2Isabelle
  imports Main "HOL-Library.Word"
begin

section \<open>JavaScript strings\<close>

text \<open>
  A JavaScript string is modelled as a \<^typ>\<open>string\<close>: each \<^typ>\<open>char\<close> stands for one
  code unit in the range U+0000..U+00FF. All the texts the servers build themselves
  (SQL templates, placeholders, the completion marker) are in that range.
\<close>

definition newline :: string where
  "newline = [CHR 0x0A]"

text \<open>\<^verbatim>\<open>s.startsWith(p)\<close>\<close>

fun startsWith :: "string \<Rightarrow> string \<Rightarrow> bool" where
  "startsWith s [] = True"
| "startsWith [] (p # ps) = False"
| "startsWith (c # s) (p # ps) = (c = p \<and> startsWith s ps)"

text \<open>\<^verbatim>\<open>s.endsWith(p)\<close>\<close>

definition endsWith :: "string \<Rightarrow> string \<Rightarrow> bool" where
  "endsWith s p = startsWith (rev s) (rev p)"

text \<open>\<^verbatim>\<open>s.indexOf(t)\<close>, with \<open>None\<close> for the result -1.\<close>

fun indexOf :: "string \<Rightarrow> string \<Rightarrow> nat option" where
  "indexOf [] t = (if t = [] then Some 0 else None)"
| "indexOf (c # s) t =
     (if startsWith (c # s) t then Some 0 else map_option Suc (indexOf s t))"

text \<open>\<^verbatim>\<open>s.includes(t)\<close>\<close>

definition includes_str :: "string \<Rightarrow> string \<Rightarrow> bool" where
  "includes_str s t = (indexOf s t \<noteq> None)"

text \<open>
  \<^verbatim>\<open>s.trim()\<close> strips white space and line terminators from both ends. Of these, the code
  units below U+0100 are TAB, LF, VT, FF, CR, SPACE and NBSP.
\<close>

definition is_space :: "char \<Rightarrow> bool" where
  "is_space c = (c \<in> {CHR 0x09, CHR 0x0A, CHR 0x0B, CHR 0x0C, CHR 0x0D, CHR 0x20, CHR 0xA0})"

definition trim :: "string \<Rightarrow> string" where
  "trim s = rev (dropWhile is_space (rev (dropWhile is_space s)))"

text \<open>\<^verbatim>\<open>xs.join(sep)\<close> on an array of strings.\<close>

fun join :: "string \<Rightarrow> string list \<Rightarrow> string" where
  "join sep [] = []"
| "join sep [x] = x"
| "join sep (x # y # xs) = x @ sep @ join sep (y # xs)"

text \<open>The decimal rendering of a non-negative integer, as a template literal prints it.\<close>

definition digit :: "nat \<Rightarrow> char" where
  "digit d = ''0123456789'' ! d"

definition is_digit :: "char \<Rightarrow> bool" where
  "is_digit c = (c \<in> set ''0123456789'')"

function show_nat :: "nat \<Rightarrow> string" where
  "show_nat n = (if n < 10 then [digit n] else show_nat (n div 10) @ [digit (n mod 10)])"
  by pat_completeness auto
termination
  by (relation "measure id") auto

declare show_nat.simps [simp del]

text \<open>
  \<^verbatim>\<open>s.replace(pat, rep)\<close> with a string pattern replaces the first occurrence of \<open>pat\<close> only.
  The replacement text is a template: \<^verbatim>\<open>$$\<close> stands for a dollar sign, \<^verbatim>\<open>$&\<close> for the matched
  text, \<^verbatim>\<open>$`\<close> for the text before the match and \<^verbatim>\<open>$'\<close> for the text after it. A string
  pattern has no capture groups, so \<^verbatim>\<open>$1\<close>, \<^verbatim>\<open>$2\<close>, ... are left as they are.
\<close>

fun getSubstitution :: "string \<Rightarrow> string \<Rightarrow> string \<Rightarrow> string \<Rightarrow> string" where
  "getSubstitution matched pre post [] = []"
| "getSubstitution matched pre post [c] = [c]"
| "getSubstitution matched pre post (c # d # r) =
    (if c = CHR ''$'' then
       (if d = CHR ''$'' then CHR ''$'' # getSubstitution matched pre post r
        else if d = CHR ''&'' then matched @ getSubstitution matched pre post r
        else if d = CHR 0x60 then pre @ getSubstitution matched pre post r
        else if d = CHR 0x27 then post @ getSubstitution matched pre post r
        else c # getSubstitution matched pre post (d # r))
     else c # getSubstitution matched pre post (d # r))"

definition replace_str :: "string \<Rightarrow> string \<Rightarrow> string \<Rightarrow> string" where
  "replace_str s pat rep =
     (case indexOf s pat of
        None \<Rightarrow> s
      | Some i \<Rightarrow>
          (let pre = take i s; post = drop (i + length pat) s
           in pre @ getSubstitution pat pre post rep @ post))"

text \<open>A replacement template in which no dollar sign starts a substitution.\<close>

fun literal_template :: "string \<Rightarrow> bool" where
  "literal_template [] = True"
| "literal_template [c] = True"
| "literal_template (c # d # r) =
     ((c = CHR ''$'' \<longrightarrow> d \<notin> {CHR ''$'', CHR ''&'', CHR 0x60, CHR 0x27}) \<and>
      literal_template (d # r))"


section \<open>The process handle and \<open>runCmd\<close> (src/src/server.ts, class DuckDB)\<close>

text \<open>
  A readable stream of the child process, as one sequence of \<^verbatim>\<open>read()\<close> calls sees it:
  the decoded chunks that the reads will return, in order, and whether the stream then
  reports \<^verbatim>\<open>done\<close>. When the chunks are used up and the stream has not ended, the next read
  never resolves.
\<close>

record stream =
  pending :: "string list"
  ended :: bool

text \<open>
  The handle: what has been written to the process input so far, the outcome of the next
  writes (\<open>Some msg\<close>: the write rejects with an error of that message, as on a broken
  pipe; when the list is used up the writes are accepted), and the two output streams.
\<close>

record proc =
  stdin :: "string list"
  stdin_outcomes :: "string option list"
  stdout :: stream
  stderr :: stream

text \<open>\<^verbatim>\<open>await this.stdin.write(new TextEncoder().encode(text))\<close>\<close>

definition stdin_write :: "proc \<Rightarrow> string \<Rightarrow> string option \<times> proc" where
  "stdin_write p text =
     (case stdin_outcomes p of
        [] \<Rightarrow> (None, p\<lparr>stdin := stdin p @ [text]\<rparr>)
      | None # os \<Rightarrow> (None, p\<lparr>stdin := stdin p @ [text], stdin_outcomes := os\<rparr>)
      | Some msg # os \<Rightarrow> (Some msg, p\<lparr>stdin_outcomes := os\<rparr>))"

text \<open>
  The two loops of \<open>runCmd\<close> have one shape:
  \<^verbatim>\<open>while (true) { const { done, value } = await reader.read(); if (done) break;
      buf += decode(value); if (buf.includes(stop)) break; }\<close>
  The result is the buffer and the rest of the stream, or \<open>None\<close> when a read never
  resolves.
\<close>

fun read_chunks :: "string \<Rightarrow> string \<Rightarrow> string list \<Rightarrow> bool \<Rightarrow> (string \<times> string list) option" where
  "read_chunks stop buf [] fin = (if fin then Some (buf, []) else None)"
| "read_chunks stop buf (v # vs) fin =
     (let buf' = buf @ v
      in if includes_str buf' stop then Some (buf', vs) else read_chunks stop buf' vs fin)"

definition read_until :: "string \<Rightarrow> stream \<Rightarrow> (string \<times> stream) option" where
  "read_until stop st =
     map_option (\<lambda>(buf, rest). (buf, st\<lparr>pending := rest\<rparr>))
       (read_chunks stop [] (pending st) (ended st))"

definition marker :: string where
  "marker = ''Run Time:''"

text \<open>
  \<open>runCmd\<close>: \<open>None\<close> when the promise never settles, \<open>Inl msg\<close> when it rejects with an
  error of message \<open>msg\<close>, \<open>Inr out\<close> when it resolves. The first loop reads the primary
  output up to the marker, the second loop then reads the diagnostic output up to a line
  end.
\<close>

definition runCmd :: "proc \<Rightarrow> string \<Rightarrow> ((string + string) \<times> proc) option" where
  "runCmd p cmd =
     (case stdin_write p (cmd @ newline) of
        (Some msg, p1) \<Rightarrow> Some (Inl msg, p1)
      | (None, p1) \<Rightarrow>
          (case read_until marker (stdout p1) of
             None \<Rightarrow> None
           | Some (out, so) \<Rightarrow>
               (case read_until newline (stderr p1) of
                  None \<Rightarrow> None
                | Some (err, se) \<Rightarrow>
                    Some (if err \<noteq> [] then Inl (trim err) else Inr (trim out),
                          p1\<lparr>stdout := so, stderr := se\<rparr>))))"

text \<open>
  The history table. The command texts are the template literals of the source, line by
  line.
\<close>

definition initQueryHistoryTable_cmd :: string where
  "initQueryHistoryTable_cmd = join newline
     [[],
      ''      CREATE TABLE IF NOT EXISTS _query_history ('',
      ''        query_hash VARCHAR,'',
      ''        query_text TEXT,'',
      ''        result_file VARCHAR,'',
      ''        query_time DOUBLE,'',
      ''        execution_time TIMESTAMP'',
      ''      );'',
      ''    '']"

definition initQueryHistoryTable :: "proc \<Rightarrow> ((string + string) \<times> proc) option" where
  "initQueryHistoryTable p = runCmd p initQueryHistoryTable_cmd"

definition quote :: string where
  "quote = [CHR 0x27]"

text \<open>\<^verbatim>\<open>queryText.replace(/'/g, "''")\<close>: every single quote is doubled.\<close>

definition escape_quotes :: "string \<Rightarrow> string" where
  "escape_quotes s = concat (map (\<lambda>c. if c = CHR 0x27 then [CHR 0x27, CHR 0x27] else [c]) s)"

text \<open>\<open>queryTime\<close> is the number of seconds as the template literal prints it.\<close>

definition saveQueryHistory_cmd :: "string \<Rightarrow> string \<Rightarrow> string \<Rightarrow> string \<Rightarrow> string" where
  "saveQueryHistory_cmd queryHash queryText resultFile queryTime = join newline
     [[],
      ''      INSERT INTO _query_history (query_hash, query_text, result_file, query_time, execution_time)'',
      ''      VALUES ('' @ quote @ queryHash @ quote @ '', ''
         @ quote @ escape_quotes queryText @ quote @ '', ''
         @ quote @ resultFile @ quote @ '', ''
         @ queryTime @ '', CURRENT_TIMESTAMP);'',
      ''    '']"

definition saveQueryHistory ::
  "proc \<Rightarrow> string \<Rightarrow> string \<Rightarrow> string \<Rightarrow> string \<Rightarrow> ((string + unit) \<times> proc) option" where
  "saveQueryHistory p queryHash queryText resultFile queryTime =
     (case runCmd p (saveQueryHistory_cmd queryHash queryText resultFile queryTime) of
        None \<Rightarrow> None
      | Some (Inl msg, p') \<Rightarrow> Some (Inl msg, p')
      | Some (Inr out, p') \<Rightarrow> Some (Inr (), p'))"

text \<open>
  The constructor calls \<open>runCmd\<close> for \<^verbatim>\<open>.echo on\<close> and \<^verbatim>\<open>.timer on\<close> and then
  \<open>initQueryHistoryTable\<close>, without awaiting any of them. Each call runs up to its first
  \<^verbatim>\<open>await\<close>, which issues its write to the process input; the writes are queued in call
  order. \<open>constructor\<close> is the handle when the constructor returns: the freshly spawned
  process after these three writes. The reads of the three calls go on afterwards and are
  not part of this state.
\<close>

definition constructor_cmds :: "string list" where
  "constructor_cmds = [''.echo on'', ''.timer on'', initQueryHistoryTable_cmd]"

definition constructor :: "proc \<Rightarrow> proc" where
  "constructor spawned = foldl (\<lambda>p cmd. snd (stdin_write p (cmd @ newline))) spawned constructor_cmds"


section \<open>Reading the history statements\<close>

text \<open>
  The functions of this section are not part of the program. They read the two statements
  the way SQL does, to say which columns and values the statements hold: the text between
  the outer parentheses, split at the commas, each part split into words.
\<close>

fun split_when :: "(char \<Rightarrow> bool) \<Rightarrow> string \<Rightarrow> string list" where
  "split_when sep [] = [[]]"
| "split_when sep (c # s) =
     (case split_when sep s of
        [] \<Rightarrow> [[c]]
      | w # ws \<Rightarrow> if sep c then [] # w # ws else (c # w) # ws)"

definition split_on :: "char \<Rightarrow> string \<Rightarrow> string list" where
  "split_on sep s = split_when (\<lambda>c. c = sep) s"

definition words_of :: "string \<Rightarrow> string list" where
  "words_of s = filter (\<lambda>w. w \<noteq> []) (split_when is_space s)"

definition after_open_paren :: "string \<Rightarrow> string" where
  "after_open_paren s = tl (dropWhile (\<lambda>c. c \<noteq> CHR ''('') s)"

definition column_defs :: "string \<Rightarrow> string list list" where
  "column_defs create_stmt =
     map words_of
       (split_on (CHR '','')
          (rev (tl (dropWhile (\<lambda>c. c \<noteq> CHR '')'') (rev (after_open_paren create_stmt))))))"

definition insert_columns :: "string \<Rightarrow> string list" where
  "insert_columns insert_stmt =
     map trim (split_on (CHR '','') (takeWhile (\<lambda>c. c \<noteq> CHR '')'') (after_open_paren insert_stmt)))"


text \<open>
  The list of values of the insert, and its reading as SQL: a comma separates two values
  unless it stands inside a string literal; a literal runs from a single quote to the next
  single quote, and a doubled quote inside it opens the literal again at once.
\<close>

definition insert_values :: "string \<Rightarrow> string \<Rightarrow> string \<Rightarrow> string \<Rightarrow> string" where
  "insert_values queryHash queryText resultFile queryTime =
     quote @ queryHash @ quote @ '', ''
       @ quote @ escape_quotes queryText @ quote @ '', ''
       @ quote @ resultFile @ quote @ '', ''
       @ queryTime @ '', CURRENT_TIMESTAMP''"

fun sql_split :: "bool \<Rightarrow> string \<Rightarrow> string \<Rightarrow> string list" where
  "sql_split in_literal cur [] = [cur]"
| "sql_split in_literal cur (c # s) =
     (if c = CHR 0x27 then sql_split (\<not> in_literal) (cur @ [c]) s
      else if c = CHR '','' \<and> \<not> in_literal then cur # sql_split False [] s
      else sql_split in_literal (cur @ [c]) s)"

definition sql_values :: "string \<Rightarrow> string list" where
  "sql_values s = map trim (sql_split False [] s)"


section \<open>\<open>DuckDB.query\<close> and the PUT handler (src/src/server.ts)\<close>

text \<open>
  \<open>params\<close> is the list of the parameters as \<^verbatim>\<open>join\<close> prints them. The placeholder list
  only depends on their number.
\<close>

definition paramPlaceholders :: "string list \<Rightarrow> string" where
  "paramPlaceholders params =
     join '', '' (map (\<lambda>i. CHR ''$'' # show_nat (i + 1)) [0..<length params])"

definition fullSql :: "string \<Rightarrow> string list \<Rightarrow> string" where
  "fullSql sql params = replace_str sql ''?'' (paramPlaceholders params)"

definition query_cmd :: "string \<Rightarrow> string list \<Rightarrow> string" where
  "query_cmd sql params =
     ''PREPARE stmt AS '' @ fullSql sql params @ ''; EXECUTE stmt''
       @ (if length params > 0 then '' ('' @ join '', '' params @ '')'' else [])
       @ '';''"

text \<open>
  \<open>query\<close> runs the command; the \<^verbatim>\<open>JSON.parse\<close> of the output is left to the caller of the
  model.
\<close>

definition query :: "proc \<Rightarrow> string \<Rightarrow> string list \<Rightarrow> ((string + string) \<times> proc) option" where
  "query p sql params = runCmd p (query_cmd sql params)"

text \<open>
  The PUT /api/:table/:id handler: \<open>body\<close> is the request body as its list of keys and
  values.
\<close>

definition put_sql :: "string \<Rightarrow> string list \<Rightarrow> string" where
  "put_sql table keys =
     ''UPDATE '' @ table @ '' SET '' @ join '', '' (map (\<lambda>key. key @ '' = ?'') keys)
       @ '' WHERE id = ? RETURNING *''"

definition put_handler_query ::
  "proc \<Rightarrow> string \<Rightarrow> string \<Rightarrow> (string \<times> string) list \<Rightarrow> ((string + string) \<times> proc) option" where
  "put_handler_query p table ident body =
     query p (put_sql table (map fst body)) (map snd body @ [ident])"


section \<open>\<open>hashQuery\<close> (src/src/server.ts)\<close>

text \<open>
  \<^verbatim>\<open>new TextEncoder().encode(str)\<close>: the UTF-8 bytes of the text. A code unit below U+0080 is
  one byte, a code unit from U+0080 to U+00FF two bytes.
\<close>

definition utf8_unit :: "char \<Rightarrow> 8 word list" where
  "utf8_unit c =
     (let n = (of_char c :: nat)
      in if n < 128 then [of_nat n] else [of_nat (192 + n div 64), of_nat (128 + n mod 64)])"

definition utf8_encode :: "string \<Rightarrow> 8 word list" where
  "utf8_encode str = concat (map utf8_unit str)"

text \<open>\<^verbatim>\<open>b.toString(16)\<close> on a non-negative integer and \<^verbatim>\<open>s.padStart(n, c)\<close>.\<close>

definition hex_digit :: "nat \<Rightarrow> char" where
  "hex_digit d = ''0123456789abcdef'' ! d"

function show_hex :: "nat \<Rightarrow> string" where
  "show_hex n = (if n < 16 then [hex_digit n] else show_hex (n div 16) @ [hex_digit (n mod 16)])"
  by pat_completeness auto
termination
  by (relation "measure id") auto

declare show_hex.simps [simp del]

definition padStart :: "nat \<Rightarrow> char \<Rightarrow> string \<Rightarrow> string" where
  "padStart n c s = replicate (n - length s) c @ s"

text \<open>
  \<open>hashQuery\<close>: the digest of the encoded text, each byte printed as two hexadecimal
  digits. The digest is \<^verbatim>\<open>crypto.subtle.digest("SHA-256", _)\<close> of the platform, a parameter
  here.
\<close>

definition hashQuery :: "(8 word list \<Rightarrow> 8 word list) \<Rightarrow> string \<Rightarrow> string" where
  "hashQuery digest str =
     concat (map (\<lambda>b. padStart 2 (CHR ''0'') (show_hex (unat b))) (digest (utf8_encode str)))"


section \<open>The POST /api/query handler (src/src/server.ts, \<open>createRestApi\<close>)\<close>

text \<open>
  What the handler takes from outside the process handle: the SHA-256 digest of the
  platform's crypto library, the outcome of
  \<^verbatim>\<open>Deno.writeTextFile\<close> (\<open>Some msg\<close>: it throws), the text of the measured
  \<^verbatim>\<open>(endTime - startTime) / 1000\<close>, and the outcome of \<^verbatim>\<open>Deno.readFile\<close>.
\<close>

record api_env =
  sha256_digest :: "8 word list \<Rightarrow> 8 word list"
  writeTextFile :: "string \<Rightarrow> string \<Rightarrow> string option"
  elapsed :: string
  readFile :: "string \<Rightarrow> string + string"

datatype content = Text string | Bytes string | Error_object string

record response =
  status :: nat
  headers :: "(string \<times> string) list"
  content :: content

text \<open>The \<^verbatim>\<open>catch\<close> block: status 400 and the body \<^verbatim>\<open>{ error: error.message }\<close>.\<close>

definition bad_request :: "string \<Rightarrow> response" where
  "bad_request msg = \<lparr>status = 400, headers = [], content = Error_object msg\<rparr>"

text \<open>\<^verbatim>\<open>searchParams.get("format") || "json"\<close>\<close>

definition format_of :: "string option \<Rightarrow> string" where
  "format_of param = (case param of None \<Rightarrow> ''json'' | Some f \<Rightarrow> if f = [] then ''json'' else f)"

text \<open>The command of the Parquet branch.\<close>

definition copy_cmd :: "string \<Rightarrow> string \<Rightarrow> string" where
  "copy_cmd queryText parquetPath =
     ''COPY ('' @ queryText @ '') TO '' @ quote @ ''html/'' @ parquetPath @ quote
       @ '' (FORMAT PARQUET);''"

definition api_query ::
  "api_env \<Rightarrow> proc \<Rightarrow> string \<Rightarrow> string option \<Rightarrow> (response \<times> proc) option" where
  "api_query env db queryText format_param =
     (let hash = hashQuery (sha256_digest env) queryText;
          sqlPath = ''queries/'' @ hash @ ''.sql''
      in case writeTextFile env (''html/'' @ sqlPath) queryText of
           Some msg \<Rightarrow> Some (bad_request msg, db)
         | None \<Rightarrow>
             if format_of format_param = ''parquet'' then
               (let parquetPath = ''queries/'' @ hash @ ''.parquet''
                in case runCmd db (copy_cmd queryText parquetPath) of
                     None \<Rightarrow> None
                   | Some (Inl msg, db1) \<Rightarrow> Some (bad_request msg, db1)
                   | Some (Inr out, db1) \<Rightarrow>
                       (case saveQueryHistory db1 hash queryText parquetPath (elapsed env) of
                          None \<Rightarrow> None
                        | Some (Inl msg, db2) \<Rightarrow> Some (bad_request msg, db2)
                        | Some (Inr u, db2) \<Rightarrow>
                            (case readFile env (''html/'' @ parquetPath) of
                               Inl msg \<Rightarrow> Some (bad_request msg, db2)
                             | Inr parquetContent \<Rightarrow>
                                 Some (\<lparr>status = 200,
                                        headers =
                                          [(''Content-Type'', ''application/octet-stream''),
                                           (''Content-Disposition'',
                                            ''attachment; filename='' @ hash @ ''.parquet'')],
                                        content = Bytes parquetContent\<rparr>, db2))))
             else
               (case runCmd db queryText of
                  None \<Rightarrow> None
                | Some (Inl msg, db1) \<Rightarrow> Some (bad_request msg, db1)
                | Some (Inr output, db1) \<Rightarrow>
                    (case saveQueryHistory db1 hash queryText [] (elapsed env) of
                       None \<Rightarrow> None
                     | Some (Inl msg, db2) \<Rightarrow> Some (bad_request msg, db2)
                     | Some (Inr u, db2) \<Rightarrow>
                         Some (\<lparr>status = 200, headers = [], content = Text output\<rparr>, db2))))"


section \<open>\<open>getDuckDB\<close> (src/src/server.ts; \<open>ensureDuckDB\<close> in src/unnamed/part_000 is the same code)\<close>








section \<open>The WebSocket session (\<open>handleWebSocket\<close> in src/server.ts and in src/unnamed/part_000)\<close>

text \<open>
  The state that \<open>handleWebSocket\<close> sets up and its callbacks change: the command line of
  the spawned process, the writes to its input, whether the input writer has been closed
  and the process killed, and the calls of \<^verbatim>\<open>ws.send\<close>. A sent frame is kept as the origin
  and the text of the chunk; src/server.ts prints it as a JSON object with the fields
  \<^verbatim>\<open>type\<close> and \<^verbatim>\<open>data\<close>, src/unnamed/part_000 as the origin, a colon and the text.
\<close>

datatype origin = Stdout | Stderr

record session =
  command :: string
  args :: "string list"
  stdin_writes :: "string list"
  stdin_closed :: bool
  killed :: bool
  sent :: "(origin \<times> string) list"

text \<open>src/server.ts\<close>

definition handleWebSocket :: "string \<Rightarrow> session" where
  "handleWebSocket dbFilename =
     \<lparr>command = ''./duckdb'', args = [dbFilename], stdin_writes = [], stdin_closed = False,
      killed = False, sent = []\<rparr>"

text \<open>src/unnamed/part_000, which gets the path of the binary from \<open>ensureDuckDB\<close>.\<close>

definition handleWebSocket_json :: "string \<Rightarrow> string \<Rightarrow> session" where
  "handleWebSocket_json dbFilename duckdbPath =
     \<lparr>command = duckdbPath, args = [dbFilename, ''--json''], stdin_writes = [],
      stdin_closed = False, killed = False, sent = []\<rparr>"

text \<open>
  What can happen to a session: a frame from the client (text or binary), a chunk read from
  the primary or the diagnostic output, the close of the socket.
\<close>

datatype ws_data = Text_frame string | Binary_frame string

datatype event = Message ws_data | Chunk origin string | Close

text \<open>
  \<^verbatim>\<open>ws.onmessage\<close> writes every text frame, with a line end, to the process input; a write
  after the writer was closed is rejected. The two reader loops send every chunk on.
  \<^verbatim>\<open>ws.onclose\<close> closes the writer and kills the process.
\<close>

fun ws_step :: "session \<Rightarrow> event \<Rightarrow> session" where
  "ws_step s (Message (Text_frame d)) =
     (if stdin_closed s then s else s\<lparr>stdin_writes := stdin_writes s @ [d @ newline]\<rparr>)"
| "ws_step s (Message (Binary_frame d)) = s"
| "ws_step s (Chunk origin c) = s\<lparr>sent := sent s @ [(origin, c)]\<rparr>"
| "ws_step s Close = s\<lparr>stdin_closed := True, killed := True\<rparr>"

definition ws_run :: "session \<Rightarrow> event list \<Rightarrow> session" where
  "ws_run s es = foldl ws_step s es"

text \<open>The text frames of an event list, in order.\<close>

fun text_frames :: "event list \<Rightarrow> string list" where
  "text_frames [] = []"
| "text_frames (Message (Text_frame d) # es) = d # text_frames es"
| "text_frames (e # es) = text_frames es"


section \<open>The client (src/src/client.vue, \<open>duckdbApp\<close>)\<close>

record command_entry =
  entry_query :: string
  entry_time :: int

text \<open>\<open>ws\<close> is \<open>None\<close> for \<^verbatim>\<open>null\<close>, else the frames sent over the socket so far.\<close>

record client =
  ws :: "string list option"
  currentQuery :: string
  output_text :: string
  previousCommands :: "command_entry list"
  loading :: bool
  commandIndex :: int
  startTime :: int

definition well_formed :: "string \<Rightarrow> bool" where
  "well_formed text = (let q = trim text in startsWith q ''.'' \<or> endsWith q '';'')"

definition isValidQuery :: "client \<Rightarrow> bool" where
  "isValidQuery c = well_formed (currentQuery c)"

text \<open>\<^verbatim>\<open>currentQuery.replace(/'/g, "\\'")\<close>\<close>

definition backslash_quotes :: "string \<Rightarrow> string" where
  "backslash_quotes s = concat (map (\<lambda>c. if c = CHR 0x27 then [CHR 0x5C, CHR 0x27] else [c]) s)"

definition echo_line :: "string \<Rightarrow> string" where
  "echo_line q =
     ''<a href='' @ [CHR 0x22] @ ''#'' @ [CHR 0x22] @ '' class='' @ [CHR 0x22]
       @ ''text-blue-500 hover:underline'' @ [CHR 0x22] @ '' @click.prevent='' @ [CHR 0x22]
       @ ''setQuery('' @ quote @ backslash_quotes q @ quote @ '')'' @ [CHR 0x22]
       @ ''>> '' @ q @ ''</a>'' @ newline"

text \<open>\<open>now\<close> is the value of \<^verbatim>\<open>Date.now()\<close>.\<close>

definition sendQuery :: "int \<Rightarrow> client \<Rightarrow> client" where
  "sendQuery now c =
     (case ws c of
        None \<Rightarrow> c
      | Some frames \<Rightarrow>
          if isValidQuery c then
            c\<lparr>startTime := now,
              ws := Some (frames @ [currentQuery c]),
              output_text := output_text c @ echo_line (currentQuery c),
              previousCommands :=
                \<lparr>entry_query = currentQuery c, entry_time = 0\<rparr> # previousCommands c,
              currentQuery := [],
              loading := True,
              commandIndex := - 1\<rparr>
          else c)"


section \<open>Example inputs\<close>

text \<open>
  A live process that answers the command \<^verbatim>\<open>.foo\<close> with one line on its diagnostic output:
  with nothing on its primary output, and with the echo of the command there.
\<close>

definition proc_error_no_output :: proc where
  "proc_error_no_output =
     \<lparr>stdin = [], stdin_outcomes = [],
      stdout = \<lparr>pending = [], ended = False\<rparr>,
      stderr = \<lparr>pending = [''Error: unknown command or invalid arguments: foo'' @ newline],
                ended = False\<rparr>\<rparr>"

definition proc_error_after_echo :: proc where
  "proc_error_after_echo =
     \<lparr>stdin = [], stdin_outcomes = [],
      stdout = \<lparr>pending = [''.foo'' @ newline], ended = False\<rparr>,
      stderr = \<lparr>pending = [''Error: unknown command or invalid arguments: foo'' @ newline],
                ended = False\<rparr>\<rparr>"

text \<open>
  A process that answers one command on its primary output and then exits, closing both
  output streams. \<open>db_history_ok\<close> still accepts the write of the history insert,
  \<open>db_history_fails\<close> rejects it, as a pipe to an exited process does.
\<close>

definition answered :: stream where
  "answered = \<lparr>pending = [''42'' @ newline @ ''Run Time: real 0.001''], ended = True\<rparr>"

definition db_history_ok :: proc where
  "db_history_ok =
     \<lparr>stdin = [], stdin_outcomes = [None, None], stdout = answered,
      stderr = \<lparr>pending = [], ended = True\<rparr>\<rparr>"

definition db_history_fails :: proc where
  "db_history_fails =
     \<lparr>stdin = [], stdin_outcomes = [None, Some ''Broken pipe''], stdout = answered,
      stderr = \<lparr>pending = [], ended = True\<rparr>\<rparr>"

text \<open>
  A process that answers one command and closes its diagnostic output, but keeps its
  primary output open and silent.
\<close>

definition db_history_hangs :: proc where
  "db_history_hangs =
     \<lparr>stdin = [], stdin_outcomes = [],
      stdout = \<lparr>pending = [''42'' @ newline @ ''Run Time: real 0.001''], ended = False\<rparr>,
      stderr = \<lparr>pending = [], ended = True\<rparr>\<rparr>"

text \<open>An environment in which the files can be written; the digest is a stand-in.\<close>

definition example_env :: api_env where
  "example_env =
     \<lparr>sha256_digest = (\<lambda>bytes. [0x9f, 0x2c]),
      writeTextFile = (\<lambda>path text. None),
      elapsed = ''0.012'',
      readFile = (\<lambda>path. Inl ''No such file'')\<rparr>"




text \<open>A client with an open socket and a text typed in.\<close>

definition client_typing :: "string \<Rightarrow> client" where
  "client_typing text =
     \<lparr>ws = Some [], currentQuery = text, output_text = [], previousCommands = [],
      loading = False, commandIndex = - 1, startTime = 0\<rparr>"


section \<open>Facts about the string operations\<close>

lemma getSubstitution_literal:
  "literal_template r \<Longrightarrow> getSubstitution m b a r = r"
  by (induction m b a r rule: getSubstitution.induct) auto

lemma literal_template_append:
  "literal_template xs \<Longrightarrow> literal_template ys \<Longrightarrow> (xs = [] \<or> last xs \<noteq> CHR ''$'')
     \<Longrightarrow> literal_template (xs @ ys)"
proof (induction xs rule: literal_template.induct)
  case 1
  then show ?case by simp
next
  case (2 c)
  then show ?case by (cases ys) auto
next
  case (3 c d r)
  then show ?case by auto
qed

lemma digit_is_digit: "d < 10 \<Longrightarrow> is_digit (digit d)"
  unfolding is_digit_def digit_def by (rule nth_mem) simp

lemma show_nat_digits: "\<forall>c \<in> set (show_nat n). is_digit c"
proof (induction n rule: show_nat.induct)
  case (1 n)
  show ?case
  proof (cases "n < 10")
    case True
    then show ?thesis using digit_is_digit [of n] by (subst show_nat.simps) simp
  next
    case False
    have "is_digit (digit (n mod 10))" by (rule digit_is_digit) simp
    with False 1 show ?thesis by (subst show_nat.simps) auto
  qed
qed

lemma show_nat_nonempty: "show_nat n \<noteq> []"
  by (subst show_nat.simps) simp

lemma digits_literal: "\<forall>c \<in> set s. is_digit c \<Longrightarrow> literal_template s"
  by (induction s rule: literal_template.induct) (auto simp: is_digit_def)

lemma dollar_digits_literal:
  assumes "\<forall>c \<in> set s. is_digit c"
  shows "literal_template (CHR ''$'' # s)"
proof (cases s)
  case Nil
  then show ?thesis by simp
next
  case (Cons d r)
  with assms have "is_digit d" by simp
  moreover have "literal_template (d # r)" using assms Cons digits_literal by blast
  ultimately show ?thesis using Cons by (auto simp: is_digit_def)
qed

lemma join_literal:
  assumes "\<forall>x \<in> set xs. literal_template x \<and> x \<noteq> [] \<and> last x \<noteq> CHR ''$''"
  shows "literal_template (join '', '' xs)"
  using assms
proof (induction "'', ''" xs rule: join.induct)
  case 1
  then show ?case by simp
next
  case (2 x)
  then show ?case by simp
next
  case (3 x y xs)
  then have "literal_template (join '', '' (y # xs))" by simp
  then have "literal_template ('', '' @ join '', '' (y # xs))"
    by (intro literal_template_append) simp_all
  with 3 show ?case
    by (simp del: literal_template.simps) (metis literal_template_append)
qed

lemma placeholder_item:
  "literal_template (CHR ''$'' # show_nat k) \<and> last (CHR ''$'' # show_nat k) \<noteq> CHR ''$''"
proof
  show "literal_template (CHR ''$'' # show_nat k)"
    using show_nat_digits dollar_digits_literal by blast
  have "last (show_nat k) \<in> set (show_nat k)"
    by (rule last_in_set) (rule show_nat_nonempty)
  then have "is_digit (last (show_nat k))"
    using show_nat_digits by blast
  then show "last (CHR ''$'' # show_nat k) \<noteq> CHR ''$''"
    by (auto simp: show_nat_nonempty is_digit_def)
qed

lemma paramPlaceholders_literal: "literal_template (paramPlaceholders params)"
  unfolding paramPlaceholders_def
proof (rule join_literal, rule ballI)
  fix x
  assume "x \<in> set (map (\<lambda>i. CHR ''$'' # show_nat (i + 1)) [0..<length params])"
  then obtain i where "x = CHR ''$'' # show_nat (i + 1)" by auto
  then show "literal_template x \<and> x \<noteq> [] \<and> last x \<noteq> CHR ''$''"
    using placeholder_item [of "i + 1"] by simp
qed

lemma join_set: "set (join sep xs) \<subseteq> set sep \<union> \<Union> (set ` set xs)"
  by (induction sep xs rule: join.induct) auto

lemma paramPlaceholders_no_qmark: "CHR ''?'' \<notin> set (paramPlaceholders params)"
proof
  assume "CHR ''?'' \<in> set (paramPlaceholders params)"
  then have "CHR ''?'' \<in> set '', '' \<union>
      \<Union> (set ` set (map (\<lambda>i. CHR ''$'' # show_nat (i + 1)) [0..<length params]))"
    using join_set unfolding paramPlaceholders_def by blast
  then obtain i where "CHR ''?'' \<in> set (show_nat (Suc i))" by (auto split: if_splits)
  then show False using show_nat_digits by (auto simp: is_digit_def)
qed

lemma indexOf_first:
  "c \<notin> set pre \<Longrightarrow> indexOf (pre @ c # post) [c] = Some (length pre)"
  by (induction pre) auto

lemma indexOf_none: "c \<notin> set s \<Longrightarrow> indexOf s [c] = None"
  by (induction s) auto

lemma count_list_0: "c \<notin> set xs \<Longrightarrow> count_list xs c = 0"
  by (induction xs) auto

lemma count_list_append: "count_list (xs @ ys) c = count_list xs c + count_list ys c"
  by (induction xs) auto


section \<open>\<open>DuckDB.query\<close> replaces the first question mark only\<close>

lemma fullSql_first:
  assumes "CHR ''?'' \<notin> set pre"
  shows "fullSql (pre @ ''?'' @ post) params = pre @ paramPlaceholders params @ post"
  using assms
  by (simp add: fullSql_def replace_str_def indexOf_first getSubstitution_literal
      paramPlaceholders_literal)

lemma fullSql_count:
  assumes "CHR ''?'' \<in> set sql"
  shows "Suc (count_list (fullSql sql params) (CHR ''?'')) = count_list sql (CHR ''?'')"
proof -
  from assms obtain pre post where s: "sql = pre @ CHR ''?'' # post" "CHR ''?'' \<notin> set pre"
    by (meson split_list_first)
  then have "fullSql sql params = pre @ paramPlaceholders params @ post"
    using fullSql_first [of pre post params] by simp
  then show ?thesis
    using s by (simp add: count_list_0 count_list_append paramPlaceholders_no_qmark)
qed

lemma join_count_ge:
  "length keys \<le> count_list (join sep (map (\<lambda>key. key @ '' = ?'') keys)) (CHR ''?'')"
  by (induction keys rule: induct_list012) (simp_all add: count_list_append)

lemma put_sql_count: "Suc (length keys) \<le> count_list (put_sql table keys) (CHR ''?'')"
  using join_count_ge [of keys "'', ''"] by (simp add: put_sql_def count_list_append)

lemma put_sql_has_qmark: "CHR ''?'' \<in> set (put_sql table keys)"
  by (simp add: put_sql_def)

text \<open>
  Claim C10. In \<open>DuckDB.query\<close>, when the SQL text contains a question mark, only the
  first one is replaced, by the whole list \<^verbatim>\<open>$1, $2, ...\<close>: the text before it and the text
  after it, with every later question mark, are kept as they are, so the statement has one
  question mark less than the SQL text. The PUT handler builds a text with at least one
  question mark for each key of the body and one for the id, so for a body of \<open>n\<close> keys at
  least \<open>n\<close> question marks remain in the prepared statement.
\<close>

theorem query_replaces_first_question_mark_only:
  "(CHR ''?'' \<notin> set pre \<longrightarrow>
      fullSql (pre @ ''?'' @ post) params = pre @ paramPlaceholders params @ post) \<and>
   (CHR ''?'' \<in> set sql \<longrightarrow>
      Suc (count_list (fullSql sql params) (CHR ''?'')) = count_list sql (CHR ''?'')) \<and>
   Suc (length (map fst body)) \<le> count_list (put_sql table (map fst body)) (CHR ''?'') \<and>
   length (map fst body) \<le>
      count_list (fullSql (put_sql table (map fst body)) (map snd body @ [ident])) (CHR ''?'') \<and>
   put_handler_query p table ident body =
      runCmd p (''PREPARE stmt AS ''
        @ fullSql (put_sql table (map fst body)) (map snd body @ [ident])
        @ ''; EXECUTE stmt ('' @ join '', '' (map snd body @ [ident]) @ '');'')"
proof (intro conjI impI)
  assume "CHR ''?'' \<notin> set pre"
  then show "fullSql (pre @ ''?'' @ post) params = pre @ paramPlaceholders params @ post"
    by (rule fullSql_first)
next
  assume "CHR ''?'' \<in> set sql"
  then show "Suc (count_list (fullSql sql params) (CHR ''?'')) = count_list sql (CHR ''?'')"
    by (rule fullSql_count)
next
  show "Suc (length (map fst body)) \<le> count_list (put_sql table (map fst body)) (CHR ''?'')"
    by (rule put_sql_count)
next
  have "Suc (count_list (fullSql (put_sql table (map fst body)) (map snd body @ [ident])) (CHR ''?''))
      = count_list (put_sql table (map fst body)) (CHR ''?'')"
    by (rule fullSql_count) (rule put_sql_has_qmark)
  then show "length (map fst body) \<le>
      count_list (fullSql (put_sql table (map fst body)) (map snd body @ [ident])) (CHR ''?'')"
    using put_sql_count [of "map fst body" table] by linarith
next
  show "put_handler_query p table ident body =
      runCmd p (''PREPARE stmt AS ''
        @ fullSql (put_sql table (map fst body)) (map snd body @ [ident])
        @ ''; EXECUTE stmt ('' @ join '', '' (map snd body @ [ident]) @ '');'')"
    by (simp add: put_handler_query_def query_def query_cmd_def)
qed

theorem query_replaces_first_question_mark_only_witness:
  "CHR ''?'' \<notin> set ''UPDATE t SET a = '' \<and>
   CHR ''?'' \<in> set ''UPDATE t SET a = ?, b = ? WHERE id = ? RETURNING *'' \<and>
   put_sql ''t'' [''a'', ''b''] = ''UPDATE t SET a = ?, b = ? WHERE id = ? RETURNING *'' \<and>
   fullSql ''UPDATE t SET a = ?, b = ? WHERE id = ? RETURNING *'' [''1'', ''2'', ''7'']
     = ''UPDATE t SET a = $1, $2, $3, b = ? WHERE id = ? RETURNING *'' \<and>
   count_list (fullSql ''UPDATE t SET a = ?, b = ? WHERE id = ? RETURNING *'' [''1'', ''2'', ''7''])
     (CHR ''?'') = 2"
proof -
  have pl: "paramPlaceholders [''1'', ''2'', ''7''] = ''$1, $2, $3''"
    by code_simp
  have h1: "CHR ''?'' \<notin> set ''UPDATE t SET a = ''"
    by simp
  have h2: "CHR ''?'' \<in> set ''UPDATE t SET a = ?, b = ? WHERE id = ? RETURNING *''"
    by simp
  have ps: "put_sql ''t'' [''a'', ''b''] = ''UPDATE t SET a = ?, b = ? WHERE id = ? RETURNING *''"
    by (simp add: put_sql_def)
  note inst = query_replaces_first_question_mark_only
    [of "''UPDATE t SET a = ''" "'', b = ? WHERE id = ? RETURNING *''" "[''1'', ''2'', ''7'']"
        "''UPDATE t SET a = ?, b = ? WHERE id = ? RETURNING *''"
        "[(''a'', ''1''), (''b'', ''2'')]" "''t''" "''7''"
        "\<lparr>stdin = [], stdin_outcomes = [], stdout = \<lparr>pending = [], ended = True\<rparr>,
          stderr = \<lparr>pending = [], ended = True\<rparr>\<rparr>"]
  from inst h1 have "fullSql (''UPDATE t SET a = '' @ ''?'' @ '', b = ? WHERE id = ? RETURNING *'')
      [''1'', ''2'', ''7'']
     = ''UPDATE t SET a = '' @ paramPlaceholders [''1'', ''2'', ''7'']
         @ '', b = ? WHERE id = ? RETURNING *''"
    by blast
  then have f: "fullSql ''UPDATE t SET a = ?, b = ? WHERE id = ? RETURNING *'' [''1'', ''2'', ''7'']
     = ''UPDATE t SET a = $1, $2, $3, b = ? WHERE id = ? RETURNING *''"
    by (simp add: pl)
  from inst h2 have "Suc (count_list (fullSql ''UPDATE t SET a = ?, b = ? WHERE id = ? RETURNING *''
      [''1'', ''2'', ''7'']) (CHR ''?''))
     = count_list ''UPDATE t SET a = ?, b = ? WHERE id = ? RETURNING *'' (CHR ''?'')"
    by blast
  then have c: "count_list (fullSql ''UPDATE t SET a = ?, b = ? WHERE id = ? RETURNING *''
      [''1'', ''2'', ''7'']) (CHR ''?'') = 2"
    by simp
  from h1 h2 ps f c show ?thesis by blast
qed


section \<open>The read loops of \<open>runCmd\<close>\<close>


lemma read_chunks_none:
  assumes "\<forall>j. 0 < j \<and> j \<le> length vs \<longrightarrow> \<not> includes_str (buf @ concat (take j vs)) stop"
  shows "read_chunks stop buf vs fin = (if fin then Some (buf @ concat vs, []) else None)"
  using assms
proof (induction vs arbitrary: buf)
  case Nil
  then show ?case by simp
next
  case (Cons v vs)
  from Cons.prems have "\<not> includes_str (buf @ concat (take 1 (v # vs))) stop"
    by (metis One_nat_def Suc_le_mono le0 length_Cons zero_less_Suc)
  then have no: "\<not> includes_str (buf @ v) stop" by simp
  have "read_chunks stop (buf @ v) vs fin = (if fin then Some ((buf @ v) @ concat vs, []) else None)"
  proof (rule Cons.IH, intro allI impI)
    fix j assume "0 < j \<and> j \<le> length vs"
    then have "0 < Suc j \<and> Suc j \<le> length (v # vs)" by simp
    with Cons.prems have "\<not> includes_str (buf @ concat (take (Suc j) (v # vs))) stop" by blast
    then show "\<not> includes_str ((buf @ v) @ concat (take j vs)) stop" by simp
  qed
  with no show ?case by simp
qed



lemma read_until_no_stop:
  assumes "\<forall>j\<le>length (pending st). \<not> includes_str (concat (take j (pending st))) stop"
  shows "read_until stop st
           = (if ended st then Some (concat (pending st), st\<lparr>pending := []\<rparr>) else None)"
proof -
  have "read_chunks stop [] (pending st) (ended st)
      = (if ended st then Some ([] @ concat (pending st), []) else None)"
    using assms by (intro read_chunks_none) auto
  then show ?thesis by (simp add: read_until_def)
qed

lemma stdin_write_streams:
  "stdout (snd (stdin_write p t)) = stdout p \<and> stderr (snd (stdin_write p t)) = stderr p"
  by (simp add: stdin_write_def split: list.splits option.splits)





text \<open>
  Claim C1, at the code: \<open>runCmd\<close> reads the diagnostic output only after the loop on the
  primary output has ended. While the primary output stays open and has not shown the
  marker, the call never returns, whatever the diagnostic output holds.
\<close>

theorem runCmd_waits_for_marker_whatever_stderr:
  assumes "\<not> ended (stdout p)"
    and "\<forall>j\<le>length (pending (stdout p)). \<not> includes_str (concat (take j (pending (stdout p)))) marker"
    and "fst (stdin_write p (cmd @ newline)) = None"
  shows "runCmd p cmd = None"
proof -
  obtain p1 where w: "stdin_write p (cmd @ newline) = (None, p1)"
    using assms(3) by (cases "stdin_write p (cmd @ newline)") auto
  then have so: "stdout p1 = stdout p"
    using stdin_write_streams [of p "cmd @ newline"] by simp
  have "read_until marker (stdout p1) = None"
    unfolding so using assms(1,2) by (simp add: read_until_no_stop)
  then show ?thesis
    using w by (simp add: runCmd_def)
qed

theorem runCmd_waits_for_marker_whatever_stderr_witness:
  "runCmd proc_error_no_output ''.foo'' = None \<and> runCmd proc_error_after_echo ''.foo'' = None"
proof -
  have a1: "\<not> ended (stdout proc_error_no_output)"
    by (simp add: proc_error_no_output_def)
  have a2: "\<forall>j\<le>length (pending (stdout proc_error_no_output)).
      \<not> includes_str (concat (take j (pending (stdout proc_error_no_output)))) marker"
    by (simp add: proc_error_no_output_def includes_str_def marker_def)
  have a3: "fst (stdin_write proc_error_no_output (''.foo'' @ newline)) = None"
    by (simp add: proc_error_no_output_def stdin_write_def)
  have b1: "\<not> ended (stdout proc_error_after_echo)"
    by (simp add: proc_error_after_echo_def)
  have b2: "\<forall>j\<le>length (pending (stdout proc_error_after_echo)).
      \<not> includes_str (concat (take j (pending (stdout proc_error_after_echo)))) marker"
    by (simp add: proc_error_after_echo_def le_Suc_eq includes_str_def marker_def newline_def)
  have b3: "fst (stdin_write proc_error_after_echo (''.foo'' @ newline)) = None"
    by (simp add: proc_error_after_echo_def stdin_write_def)
  from runCmd_waits_for_marker_whatever_stderr [OF a1 a2 a3]
    runCmd_waits_for_marker_whatever_stderr [OF b1 b2 b3]
  show ?thesis by blast
qed

text \<open>
  What the diagnostic output does once the loop on the primary output has ended: a
  non-empty diagnostic text makes the call fail with that text, trimmed.
\<close>

lemma runCmd_rejects_on_diagnostic_output:
  assumes "fst (stdin_write p (cmd @ newline)) = None"
    and "read_until marker (stdout p) = Some (out, so)"
    and "read_until newline (stderr p) = Some (err, se)"
    and "err \<noteq> []"
  shows "map_option fst (runCmd p cmd) = Some (Inl (trim err))"
proof -
  obtain p1 where w: "stdin_write p (cmd @ newline) = (None, p1)"
    using assms(1) by (cases "stdin_write p (cmd @ newline)") auto
  then have "stdout p1 = stdout p" "stderr p1 = stderr p"
    using stdin_write_streams [of p "cmd @ newline"] by simp_all
  with assms w show ?thesis
    by (simp add: runCmd_def)
qed


section \<open>The fingerprint\<close>

lemma hex_digit_inj: "a < 16 \<Longrightarrow> b < 16 \<Longrightarrow> hex_digit a = hex_digit b \<Longrightarrow> a = b"
  unfolding hex_digit_def
  by (subst (asm) nth_eq_iff_index_eq) simp_all

lemma hex_byte: "padStart 2 (CHR ''0'') (show_hex (unat (b :: 8 word)))
    = [hex_digit (unat b div 16), hex_digit (unat b mod 16)]"
proof -
  have lt: "unat b < 256"
    using unsigned_less [of b] by simp
  show ?thesis
  proof (cases "unat b < 16")
    case True
    then show ?thesis
      by (simp add: show_hex.simps padStart_def hex_digit_def)
  next
    case False
    with lt have "unat b div 16 < 16" by simp
    with False show ?thesis
      by (simp add: show_hex.simps [of "unat b"] show_hex.simps [of "unat b div 16"] padStart_def)
  qed
qed

lemma hex_byte_inj:
  assumes "padStart 2 (CHR ''0'') (show_hex (unat (a :: 8 word)))
      = padStart 2 (CHR ''0'') (show_hex (unat (b :: 8 word)))"
  shows "a = b"
proof -
  have la: "unat a < 256" using unsigned_less [of a] by simp
  have lb: "unat b < 256" using unsigned_less [of b] by simp
  from assms have "hex_digit (unat a div 16) = hex_digit (unat b div 16)"
    and "hex_digit (unat a mod 16) = hex_digit (unat b mod 16)"
    by (simp_all add: hex_byte)
  with la lb have "unat a div 16 = unat b div 16" and "unat a mod 16 = unat b mod 16"
    by (auto intro!: hex_digit_inj)
  then have "unat a = unat b"
    by (metis div_mult_mod_eq)
  then show ?thesis by (simp add: word_unat_eq_iff)
qed

lemma hex_bytes_inj:
  "concat (map (\<lambda>b :: 8 word. padStart 2 (CHR ''0'') (show_hex (unat b))) xs)
     = concat (map (\<lambda>b. padStart 2 (CHR ''0'') (show_hex (unat b))) ys) \<Longrightarrow> xs = ys"
proof (induction xs arbitrary: ys)
  case Nil
  then show ?case by (cases ys) (simp_all add: hex_byte)
next
  case (Cons x xs)
  then obtain y ys' where ys: "ys = y # ys'"
    by (cases ys) (simp_all add: hex_byte)
  with Cons.prems have "padStart 2 (CHR ''0'') (show_hex (unat x))
      = padStart 2 (CHR ''0'') (show_hex (unat y))"
    and rest: "concat (map (\<lambda>b :: 8 word. padStart 2 (CHR ''0'') (show_hex (unat b))) xs)
      = concat (map (\<lambda>b. padStart 2 (CHR ''0'') (show_hex (unat b))) ys')"
    by (simp_all add: hex_byte)
  then have "x = y" by (intro hex_byte_inj)
  with Cons.IH [OF rest] ys show ?case by simp
qed

lemma hashQuery_collision:
  "hashQuery digest a = hashQuery digest b \<longleftrightarrow> digest (utf8_encode a) = digest (utf8_encode b)"
  unfolding hashQuery_def using hex_bytes_inj by auto

lemma byte_of_nat_inj:
  "m < 256 \<Longrightarrow> n < 256 \<Longrightarrow> (of_nat m :: 8 word) = of_nat n \<Longrightarrow> m = n"
  by (simp add: word_of_nat_eq_iff take_bit_nat_eq_self)

lemma utf8_unit_low:
  "of_char c < (128 :: nat) \<Longrightarrow> utf8_unit c = [of_nat (of_char c)]"
  by (simp add: utf8_unit_def Let_def)

lemma utf8_unit_high:
  "\<not> of_char c < (128 :: nat) \<Longrightarrow>
     utf8_unit c = [of_nat (192 + of_char c div 64), of_nat (128 + of_char c mod 64)]"
  by (simp add: utf8_unit_def Let_def)

lemma utf8_unit_prefix_free:
  assumes "utf8_unit c @ r = utf8_unit d @ s"
  shows "c = d \<and> r = s"
proof -
  have lc: "of_char c < (256 :: nat)" and ld: "of_char d < (256 :: nat)"
    by simp_all
  then have qc: "192 + (of_char c :: nat) div 64 < 256" and qd: "192 + (of_char d :: nat) div 64 < 256"
    by linarith+
  have rc: "128 + (of_char c :: nat) mod 64 < 256" and rd: "128 + (of_char d :: nat) mod 64 < 256"
    by (simp_all add: less_imp_le_nat [THEN le_less_trans] pos_mod_bound trans_less_add2)
  consider "of_char c < (128 :: nat)" "of_char d < (128 :: nat)"
    | "of_char c < (128 :: nat)" "\<not> of_char d < (128 :: nat)"
    | "\<not> of_char c < (128 :: nat)" "of_char d < (128 :: nat)"
    | "\<not> of_char c < (128 :: nat)" "\<not> of_char d < (128 :: nat)"
    by blast
  then show ?thesis
  proof cases
    case 1
    from assms have "(of_nat (of_char c) :: 8 word) = of_nat (of_char d)" and r: "r = s"
      unfolding utf8_unit_low [OF 1(1)] utf8_unit_low [OF 1(2)]
      by (simp_all only: append_Cons append_Nil list.inject)
    then have "(of_char c :: nat) = of_char d"
      using lc ld by (intro byte_of_nat_inj)
    with r show ?thesis by simp
  next
    case 2
    from assms have "(of_nat (of_char c) :: 8 word) = of_nat (192 + of_char d div 64)"
      unfolding utf8_unit_low [OF 2(1)] utf8_unit_high [OF 2(2)]
      by (simp only: append_Cons append_Nil list.inject)
    then have "(of_char c :: nat) = 192 + of_char d div 64"
      using lc qd by (intro byte_of_nat_inj)
    with 2 show ?thesis by simp
  next
    case 3
    from assms have "(of_nat (192 + of_char c div 64) :: 8 word) = of_nat (of_char d)"
      unfolding utf8_unit_high [OF 3(1)] utf8_unit_low [OF 3(2)]
      by (simp only: append_Cons append_Nil list.inject)
    then have "192 + of_char c div 64 = (of_char d :: nat)"
      using qc ld by (intro byte_of_nat_inj)
    with 3 show ?thesis by simp
  next
    case 4
    from assms have "(of_nat (192 + of_char c div 64) :: 8 word) = of_nat (192 + of_char d div 64)"
      and "(of_nat (128 + of_char c mod 64) :: 8 word) = of_nat (128 + of_char d mod 64)"
      and r: "r = s"
      unfolding utf8_unit_high [OF 4(1)] utf8_unit_high [OF 4(2)]
      by (simp_all only: append_Cons append_Nil list.inject)
    then have "192 + (of_char c :: nat) div 64 = 192 + of_char d div 64"
      and "128 + (of_char c :: nat) mod 64 = 128 + of_char d mod 64"
      using qc qd rc rd by (auto intro!: byte_of_nat_inj)
    then have "(of_char c :: nat) = of_char d"
      by (metis add_left_cancel div_mult_mod_eq)
    with r show ?thesis by simp
  qed
qed

lemma utf8_unit_nonempty: "utf8_unit c \<noteq> []"
  by (simp add: utf8_unit_def Let_def)

lemma utf8_encode_inj: "utf8_encode a = utf8_encode b \<Longrightarrow> a = b"
proof (induction a arbitrary: b)
  case Nil
  then show ?case by (cases b) (simp_all add: utf8_encode_def utf8_unit_nonempty)
next
  case (Cons c a)
  then obtain d b' where b: "b = d # b'"
    by (cases b) (simp_all add: utf8_encode_def utf8_unit_nonempty)
  with Cons.prems have "utf8_unit c @ utf8_encode a = utf8_unit d @ utf8_encode b'"
    by (simp add: utf8_encode_def)
  then have "c = d \<and> utf8_encode a = utf8_encode b'"
    by (rule utf8_unit_prefix_free)
  with Cons.IH b show ?case by simp
qed

text \<open>
  The fingerprints of two texts are equal exactly when the digests of their encodings
  are; two different texts have different encodings.
\<close>

lemma hashQuery_differs_unless_digest_collides:
  "a \<noteq> b \<Longrightarrow> hashQuery digest a = hashQuery digest b \<Longrightarrow>
     utf8_encode a \<noteq> utf8_encode b \<and> digest (utf8_encode a) = digest (utf8_encode b)"
  using hashQuery_collision utf8_encode_inj by blast



section \<open>The POST /api/query handler and the history insert\<close>

lemma example_hash: "hashQuery (sha256_digest example_env) text = ''9f2c''"
  by (simp add: hashQuery_def example_env_def hex_byte hex_digit_def)



lemma api_query_json:
  assumes "writeTextFile env (''html/queries/'' @ hashQuery (sha256_digest env) q @ ''.sql'') q = None"
    and "format_of fmt \<noteq> ''parquet''"
    and "runCmd db q = Some (Inr out, db1)"
  shows "api_query env db q fmt =
     (case saveQueryHistory db1 (hashQuery (sha256_digest env) q) q [] (elapsed env) of
        None \<Rightarrow> None
      | Some (Inl msg, db2) \<Rightarrow> Some (bad_request msg, db2)
      | Some (Inr u, db2) \<Rightarrow> Some (\<lparr>status = 200, headers = [], content = Text out\<rparr>, db2))"
  using assms by (simp add: api_query_def Let_def)

lemma api_query_parquet:
  assumes "writeTextFile env (''html/queries/'' @ hashQuery (sha256_digest env) q @ ''.sql'') q = None"
    and "format_of fmt = ''parquet''"
    and "runCmd db (copy_cmd q (''queries/'' @ hashQuery (sha256_digest env) q @ ''.parquet''))
           = Some (Inr out, db1)"
  shows "api_query env db q fmt =
     (case saveQueryHistory db1 (hashQuery (sha256_digest env) q) q
             (''queries/'' @ hashQuery (sha256_digest env) q @ ''.parquet'') (elapsed env) of
        None \<Rightarrow> None
      | Some (Inl msg, db2) \<Rightarrow> Some (bad_request msg, db2)
      | Some (Inr u, db2) \<Rightarrow>
          (case readFile env (''html/queries/'' @ hashQuery (sha256_digest env) q @ ''.parquet'') of
             Inl msg \<Rightarrow> Some (bad_request msg, db2)
           | Inr parquetContent \<Rightarrow>
               Some (\<lparr>status = 200,
                      headers =
                        [(''Content-Type'', ''application/octet-stream''),
                         (''Content-Disposition'',
                          ''attachment; filename='' @ hashQuery (sha256_digest env) q @ ''.parquet'')],
                      content = Bytes parquetContent\<rparr>, db2)))"
  using assms by (simp add: api_query_def Let_def split: option.splits prod.splits sum.splits)

text \<open>
  Claim C4, as the code has it. A failure of the history insert is not swallowed:
  \<open>saveQueryHistory\<close> passes on every rejection of \<open>runCmd\<close>, and the handler awaits it
  inside its \<^verbatim>\<open>try\<close> block. When the command itself has succeeded with output \<open>out\<close>,
  the response is that output only if the history insert succeeds as well; when the insert
  fails with message \<open>msg\<close>, the response is status 400 with that message, in the JSON
  branch and in the Parquet branch alike; when the insert never returns, there is no
  response.
\<close>

theorem history_failure_reaches_client:
  assumes "writeTextFile env (''html/queries/'' @ hashQuery (sha256_digest env) q @ ''.sql'') q = None"
  shows "(format_of fmt \<noteq> ''parquet'' \<and> runCmd db q = Some (Inr out, db1) \<and>
          saveQueryHistory db1 (hashQuery (sha256_digest env) q) q [] (elapsed env)
            = Some (Inl msg, db2)
           \<longrightarrow> api_query env db q fmt = Some (bad_request msg, db2)) \<and>
         (format_of fmt \<noteq> ''parquet'' \<and> runCmd db q = Some (Inr out, db1) \<and>
          saveQueryHistory db1 (hashQuery (sha256_digest env) q) q [] (elapsed env)
            = Some (Inr (), db2)
           \<longrightarrow> api_query env db q fmt
                 = Some (\<lparr>status = 200, headers = [], content = Text out\<rparr>, db2)) \<and>
         (format_of fmt \<noteq> ''parquet'' \<and> runCmd db q = Some (Inr out, db1) \<and>
          saveQueryHistory db1 (hashQuery (sha256_digest env) q) q [] (elapsed env) = None
           \<longrightarrow> api_query env db q fmt = None) \<and>
         (format_of fmt = ''parquet'' \<and>
          runCmd db (copy_cmd q (''queries/'' @ hashQuery (sha256_digest env) q @ ''.parquet''))
            = Some (Inr out, db1) \<and>
          saveQueryHistory db1 (hashQuery (sha256_digest env) q) q
            (''queries/'' @ hashQuery (sha256_digest env) q @ ''.parquet'') (elapsed env)
            = Some (Inl msg, db2)
           \<longrightarrow> api_query env db q fmt = Some (bad_request msg, db2)) \<and>
         (saveQueryHistory db1 h q f t = Some (Inl msg, db2)
           \<longleftrightarrow> runCmd db1 (saveQueryHistory_cmd h q f t) = Some (Inl msg, db2))"
proof (intro conjI impI)
  assume "format_of fmt \<noteq> ''parquet'' \<and> runCmd db q = Some (Inr out, db1) \<and>
      saveQueryHistory db1 (hashQuery (sha256_digest env) q) q [] (elapsed env)
        = Some (Inl msg, db2)"
  then show "api_query env db q fmt = Some (bad_request msg, db2)"
    using api_query_json [OF assms, of fmt db out db1] by simp
next
  assume "format_of fmt \<noteq> ''parquet'' \<and> runCmd db q = Some (Inr out, db1) \<and>
      saveQueryHistory db1 (hashQuery (sha256_digest env) q) q [] (elapsed env)
        = Some (Inr (), db2)"
  then show "api_query env db q fmt
      = Some (\<lparr>status = 200, headers = [], content = Text out\<rparr>, db2)"
    using api_query_json [OF assms, of fmt db out db1] by simp
next
  assume "format_of fmt \<noteq> ''parquet'' \<and> runCmd db q = Some (Inr out, db1) \<and>
      saveQueryHistory db1 (hashQuery (sha256_digest env) q) q [] (elapsed env) = None"
  then show "api_query env db q fmt = None"
    using api_query_json [OF assms, of fmt db out db1] by simp
next
  assume "format_of fmt = ''parquet'' \<and>
      runCmd db (copy_cmd q (''queries/'' @ hashQuery (sha256_digest env) q @ ''.parquet''))
        = Some (Inr out, db1) \<and>
      saveQueryHistory db1 (hashQuery (sha256_digest env) q) q
        (''queries/'' @ hashQuery (sha256_digest env) q @ ''.parquet'') (elapsed env)
        = Some (Inl msg, db2)"
  then show "api_query env db q fmt = Some (bad_request msg, db2)"
    using api_query_parquet [OF assms, of fmt db out db1] by simp
next
  show "saveQueryHistory db1 h q f t = Some (Inl msg, db2)
      \<longleftrightarrow> runCmd db1 (saveQueryHistory_cmd h q f t) = Some (Inl msg, db2)"
    by (auto simp: saveQueryHistory_def split: option.splits sum.splits prod.splits)
qed

theorem history_failure_reaches_client_witness:
  "map_option fst (api_query example_env db_history_fails ''SELECT 42;'' None)
     = Some (bad_request ''Broken pipe'') \<and>
   map_option fst (api_query example_env db_history_ok ''SELECT 42;'' None)
     = Some \<lparr>status = 200, headers = [],
         content = Text (''42'' @ newline @ ''Run Time: real 0.001'')\<rparr> \<and>
   api_query example_env db_history_hangs ''SELECT 42;'' None = None \<and>
   map_option fst (api_query example_env db_history_fails ''SELECT 42;'' (Some ''parquet''))
     = Some (bad_request ''Broken pipe'')"
proof -
  let ?out = "''42'' @ newline @ ''Run Time: real 0.001''"
  let ?idle = "\<lparr>pending = [], ended = True\<rparr>"
  let ?silent = "\<lparr>pending = [], ended = False\<rparr>"
  let ?insert = "saveQueryHistory_cmd ''9f2c'' ''SELECT 42;'' [] ''0.012'' @ newline"
  let ?copy = "copy_cmd ''SELECT 42;'' ''queries/9f2c.parquet'' @ newline"
  let ?f1 = "\<lparr>stdin = [''SELECT 42;'' @ newline], stdin_outcomes = [Some ''Broken pipe''],
          stdout = ?idle, stderr = ?idle\<rparr>"
  let ?f2 = "\<lparr>stdin = [''SELECT 42;'' @ newline], stdin_outcomes = [],
          stdout = ?idle, stderr = ?idle\<rparr>"
  let ?k1 = "\<lparr>stdin = [''SELECT 42;'' @ newline], stdin_outcomes = [None],
          stdout = ?idle, stderr = ?idle\<rparr>"
  let ?k2 = "\<lparr>stdin = [''SELECT 42;'' @ newline, ?insert], stdin_outcomes = [],
          stdout = ?idle, stderr = ?idle\<rparr>"
  let ?g1 = "\<lparr>stdin = [''SELECT 42;'' @ newline], stdin_outcomes = [],
          stdout = ?silent, stderr = ?idle\<rparr>"
  let ?c1 = "\<lparr>stdin = [?copy], stdin_outcomes = [Some ''Broken pipe''],
          stdout = ?idle, stderr = ?idle\<rparr>"
  let ?c2 = "\<lparr>stdin = [?copy], stdin_outcomes = [], stdout = ?idle, stderr = ?idle\<rparr>"
  have h1: "writeTextFile example_env
      (''html/queries/'' @ hashQuery (sha256_digest example_env) ''SELECT 42;'' @ ''.sql'')
      ''SELECT 42;'' = None"
    by (simp add: example_env_def)
  have j: "format_of None \<noteq> ''parquet''" and p: "format_of (Some ''parquet'') = ''parquet''"
    by (simp_all add: format_of_def)
  have el: "elapsed example_env = ''0.012''"
    by (simp add: example_env_def)
  have f3: "runCmd db_history_fails ''SELECT 42;'' = Some (Inr ?out, ?f1)"
    by (simp add: runCmd_def db_history_fails_def answered_def stdin_write_def read_until_def
        includes_str_def marker_def newline_def trim_def is_space_def)
  have f4: "saveQueryHistory ?f1 (hashQuery (sha256_digest example_env) ''SELECT 42;'')
      ''SELECT 42;'' [] (elapsed example_env) = Some (Inl ''Broken pipe'', ?f2)"
    by (simp add: saveQueryHistory_def runCmd_def stdin_write_def)
  have k3: "runCmd db_history_ok ''SELECT 42;'' = Some (Inr ?out, ?k1)"
    by (simp add: runCmd_def db_history_ok_def answered_def stdin_write_def read_until_def
        includes_str_def marker_def newline_def trim_def is_space_def)
  have k4: "saveQueryHistory ?k1 (hashQuery (sha256_digest example_env) ''SELECT 42;'')
      ''SELECT 42;'' [] (elapsed example_env) = Some (Inr (), ?k2)"
    by (simp add: saveQueryHistory_def runCmd_def stdin_write_def read_until_def example_hash el
        trim_def)
  have g3: "runCmd db_history_hangs ''SELECT 42;'' = Some (Inr ?out, ?g1)"
    by (simp add: runCmd_def db_history_hangs_def stdin_write_def read_until_def
        includes_str_def marker_def newline_def trim_def is_space_def)
  have g4: "saveQueryHistory ?g1 (hashQuery (sha256_digest example_env) ''SELECT 42;'')
      ''SELECT 42;'' [] (elapsed example_env) = None"
    by (simp add: saveQueryHistory_def runCmd_def stdin_write_def read_until_def)
  have c3: "runCmd db_history_fails
      (copy_cmd ''SELECT 42;''
         (''queries/'' @ hashQuery (sha256_digest example_env) ''SELECT 42;'' @ ''.parquet''))
      = Some (Inr ?out, ?c1)"
    by (simp add: runCmd_def db_history_fails_def answered_def stdin_write_def read_until_def
        includes_str_def marker_def newline_def trim_def is_space_def example_hash)
  have c4: "saveQueryHistory ?c1 (hashQuery (sha256_digest example_env) ''SELECT 42;'')
      ''SELECT 42;''
      (''queries/'' @ hashQuery (sha256_digest example_env) ''SELECT 42;'' @ ''.parquet'')
      (elapsed example_env) = Some (Inl ''Broken pipe'', ?c2)"
    by (simp add: saveQueryHistory_def runCmd_def stdin_write_def)
  note fails = history_failure_reaches_client [OF h1, where fmt = None and db = db_history_fails
      and out = ?out and ?db1.0 = ?f1 and msg = "''Broken pipe''" and ?db2.0 = ?f2]
  note ok = history_failure_reaches_client [OF h1, where fmt = None and db = db_history_ok
      and out = ?out and ?db1.0 = ?k1 and ?db2.0 = ?k2]
  note hangs = history_failure_reaches_client [OF h1, where fmt = None and db = db_history_hangs
      and out = ?out and ?db1.0 = ?g1]
  note parquet = history_failure_reaches_client [OF h1, where fmt = "Some ''parquet''"
      and db = db_history_fails and out = ?out and ?db1.0 = ?c1 and msg = "''Broken pipe''"
      and ?db2.0 = ?c2]
  from fails j f3 f4
  have a: "api_query example_env db_history_fails ''SELECT 42;'' None
      = Some (bad_request ''Broken pipe'', ?f2)"
    by blast
  from ok j k3 k4
  have b: "api_query example_env db_history_ok ''SELECT 42;'' None
      = Some (\<lparr>status = 200, headers = [], content = Text ?out\<rparr>, ?k2)"
    by blast
  from hangs j g3 g4
  have c: "api_query example_env db_history_hangs ''SELECT 42;'' None = None"
    by blast
  from parquet p c3 c4
  have d: "api_query example_env db_history_fails ''SELECT 42;'' (Some ''parquet'')
      = Some (bad_request ''Broken pipe'', ?c2)"
    by blast
  from a b c d show ?thesis by simp
qed

text \<open>
  Claim C4 as stated fails: two processes give the same output for the command and differ
  only in whether the write of the history insert is accepted; the responses differ.
\<close>

theorem history_failure_changes_response:
  "map_option fst (runCmd db_history_ok ''SELECT 42;'')
     = Some (Inr (''42'' @ newline @ ''Run Time: real 0.001'')) \<and>
   map_option fst (runCmd db_history_fails ''SELECT 42;'')
     = Some (Inr (''42'' @ newline @ ''Run Time: real 0.001'')) \<and>
   map_option fst (api_query example_env db_history_ok ''SELECT 42;'' None)
     = Some \<lparr>status = 200, headers = [],
         content = Text (''42'' @ newline @ ''Run Time: real 0.001'')\<rparr> \<and>
   map_option fst (api_query example_env db_history_fails ''SELECT 42;'' None)
     = Some \<lparr>status = 400, headers = [], content = Error_object ''Broken pipe''\<rparr>"
  by (simp add: api_query_def saveQueryHistory_def runCmd_def db_history_ok_def
      db_history_fails_def answered_def example_env_def format_of_def bad_request_def
      stdin_write_def read_until_def includes_str_def marker_def newline_def trim_def
      is_space_def)


section \<open>The WebSocket session\<close>

lemma ws_run_writes:
  "Close \<notin> set es \<Longrightarrow> \<not> stdin_closed s \<Longrightarrow>
     stdin_writes (foldl ws_step s es) = stdin_writes s @ map (\<lambda>d. d @ newline) (text_frames es)
     \<and> \<not> stdin_closed (foldl ws_step s es)"
proof (induction es arbitrary: s)
  case Nil
  then show ?case by simp
next
  case (Cons e es)
  then show ?case
  proof (cases e)
    case (Message m)
    with Cons show ?thesis by (cases m) auto
  next
    case (Chunk origin c)
    with Cons show ?thesis by auto
  next
    case Close
    with Cons show ?thesis by simp
  qed
qed

text \<open>
  Claim C2, as the code has it. The server writes every text frame it receives to the
  process input, with a line end, whether the text is well-formed or not, and writes nothing
  for a binary frame. The test for a leading dot or a final semicolon of the trimmed text is
  made by the client: \<open>sendQuery\<close> sends the current text if and only if it is well-formed
  (and there is a socket), and otherwise leaves the client as it is, the text still in
  \<open>currentQuery\<close>.
\<close>

theorem bridge_forwards_every_text_frame:
  "(\<not> stdin_closed s \<longrightarrow>
      stdin_writes (ws_step s (Message (Text_frame d))) = stdin_writes s @ [d @ newline]) \<and>
   stdin_writes (ws_step s (Message (Binary_frame b))) = stdin_writes s \<and>
   ws (sendQuery now c) =
     (case ws c of
        None \<Rightarrow> None
      | Some frames \<Rightarrow>
          Some (if well_formed (currentQuery c) then frames @ [currentQuery c] else frames)) \<and>
   (\<not> well_formed (currentQuery c) \<longrightarrow> sendQuery now c = c)"
  by (auto simp: sendQuery_def isValidQuery_def split: option.splits)

theorem bridge_forwards_every_text_frame_witness:
  "stdin_writes (ws_step (handleWebSocket '':memory:'') (Message (Text_frame ''.tables'')))
     = [''.tables'' @ newline] \<and>
   ws (sendQuery 5 (client_typing ''SELECT 1'')) = Some [] \<and>
   currentQuery (sendQuery 5 (client_typing ''SELECT 1'')) = ''SELECT 1'' \<and>
   ws (sendQuery 5 (client_typing ''SELECT 1;'')) = Some [''SELECT 1;'']"
proof -
  have h1: "\<not> stdin_closed (handleWebSocket '':memory:'')"
    by (simp add: handleWebSocket_def)
  have h2: "\<not> well_formed (currentQuery (client_typing ''SELECT 1''))"
    by (simp add: well_formed_def client_typing_def trim_def is_space_def endsWith_def)
  have h3: "well_formed (currentQuery (client_typing ''SELECT 1;''))"
    by (simp add: well_formed_def client_typing_def trim_def is_space_def endsWith_def)
  note a = bridge_forwards_every_text_frame
    [where s = "handleWebSocket '':memory:''" and d = "''.tables''" and b = "[]" and now = 5
       and c = "client_typing ''SELECT 1''"]
  note b = bridge_forwards_every_text_frame
    [where s = "handleWebSocket '':memory:''" and d = "''.tables''" and b = "[]" and now = 5
       and c = "client_typing ''SELECT 1;''"]
  from a h1 have w: "stdin_writes (ws_step (handleWebSocket '':memory:'') (Message (Text_frame ''.tables'')))
      = stdin_writes (handleWebSocket '':memory:'') @ [''.tables'' @ newline]"
    by blast
  from a h2 have k: "sendQuery 5 (client_typing ''SELECT 1'') = client_typing ''SELECT 1''"
    by blast
  from b h3 have v: "ws (sendQuery 5 (client_typing ''SELECT 1;'')) = Some [''SELECT 1;'']"
    by (simp add: client_typing_def)
  from w k v show ?thesis
    by (simp add: handleWebSocket_def client_typing_def)
qed

text \<open>
  Claim C2 as stated fails: a frame that is not well-formed is written to the process
  input, by both servers.
\<close>

theorem bridge_writes_malformed_frame:
  "\<not> well_formed ''SELECT 1'' \<and>
   stdin_writes (ws_step (handleWebSocket '':memory:'') (Message (Text_frame ''SELECT 1'')))
     = [''SELECT 1'' @ newline] \<and>
   stdin_writes (ws_step (handleWebSocket_json '':memory:'' ''/tmp/duckdb'')
      (Message (Text_frame ''SELECT 1''))) = [''SELECT 1'' @ newline]"
  by (simp add: well_formed_def trim_def is_space_def endsWith_def handleWebSocket_def
      handleWebSocket_json_def)

text \<open>
  Claim C5, as the code has it. As long as the socket has not closed, the writes to the
  process input are exactly the text frames received, each with one line end appended, in
  arrival order; the chunks read from the process have no influence on them, so a frame is
  written without waiting for the output of the frame before it. The client does not wait
  either: \<open>sendQuery\<close> sends the same whether or not \<open>loading\<close> is set.
\<close>

theorem bridge_writes_frames_in_arrival_order:
  "(Close \<notin> set es \<and> \<not> stdin_closed s \<longrightarrow>
      stdin_writes (ws_run s es) = stdin_writes s @ map (\<lambda>d. d @ newline) (text_frames es)) \<and>
   ws (sendQuery now (c\<lparr>loading := True\<rparr>)) = ws (sendQuery now c)"
  using ws_run_writes [of es s]
  by (auto simp: ws_run_def sendQuery_def isValidQuery_def split: option.splits)

theorem bridge_writes_frames_in_arrival_order_witness:
  "stdin_writes (ws_run (handleWebSocket '':memory:'')
      [Message (Text_frame ''SELECT 1;''), Chunk Stdout ''1'', Message (Text_frame ''SELECT''),
       Message (Text_frame '' 2;'')])
     = [''SELECT 1;'' @ newline, ''SELECT'' @ newline, '' 2;'' @ newline]"
proof -
  let ?es = "[Message (Text_frame ''SELECT 1;''), Chunk Stdout ''1'',
       Message (Text_frame ''SELECT''), Message (Text_frame '' 2;'')]"
  have h1: "Close \<notin> set ?es" by simp
  have h2: "\<not> stdin_closed (handleWebSocket '':memory:'')"
    by (simp add: handleWebSocket_def)
  from bridge_writes_frames_in_arrival_order
    [where es = ?es and s = "handleWebSocket '':memory:''" and c = "client_typing ''SELECT 1;''"
       and now = 5] h1 h2
  have "stdin_writes (ws_run (handleWebSocket '':memory:'') ?es)
      = stdin_writes (handleWebSocket '':memory:'') @ map (\<lambda>d. d @ newline) (text_frames ?es)"
    by blast
  then show ?thesis
    by (simp add: handleWebSocket_def)
qed

text \<open>
  Claim C5 as stated fails: two well-formed frames that arrive one after the other are
  both written before any output of the first has been read.
\<close>

theorem bridge_pipelines_commands:
  "well_formed ''SELECT 1;'' \<and> well_formed ''SELECT 2;'' \<and>
   stdin_writes (ws_run (handleWebSocket '':memory:'')
      [Message (Text_frame ''SELECT 1;''), Message (Text_frame ''SELECT 2;'')])
     = [''SELECT 1;'' @ newline, ''SELECT 2;'' @ newline] \<and>
   sent (ws_run (handleWebSocket '':memory:'')
      [Message (Text_frame ''SELECT 1;''), Message (Text_frame ''SELECT 2;'')]) = []"
  by (simp add: well_formed_def trim_def is_space_def endsWith_def handleWebSocket_def
      ws_run_def)


section \<open>Initialisation of a spawned process\<close>

text \<open>
  Claim C7, as the code has it. The constructor of \<open>DuckDB\<close> writes \<^verbatim>\<open>.echo on\<close>,
  \<^verbatim>\<open>.timer on\<close> and the \<^verbatim>\<open>CREATE TABLE IF NOT EXISTS\<close> statement of the history table to the
  fresh process, in this order and before any later command. The processes spawned by
  \<open>handleWebSocket\<close> get no initialisation: their input starts empty and all that is ever
  written to it are the text frames of the client.
\<close>

theorem init_commands_only_in_constructor:
  "(stdin spawned = [] \<and> stdin_outcomes spawned = [] \<longrightarrow>
      stdin (constructor spawned)
        = [''.echo on'' @ newline, ''.timer on'' @ newline, initQueryHistoryTable_cmd @ newline] \<and>
      stdin (snd (stdin_write (constructor spawned) (cmd @ newline)))
        = [''.echo on'' @ newline, ''.timer on'' @ newline, initQueryHistoryTable_cmd @ newline,
           cmd @ newline]) \<and>
   startsWith (dropWhile is_space initQueryHistoryTable_cmd)
     ''CREATE TABLE IF NOT EXISTS _query_history'' \<and>
   stdin_writes (handleWebSocket dbFilename) = [] \<and>
   stdin_writes (handleWebSocket_json dbFilename duckdbPath) = [] \<and>
   (Close \<notin> set es \<longrightarrow>
      stdin_writes (ws_run (handleWebSocket dbFilename) es)
        = map (\<lambda>d. d @ newline) (text_frames es) \<and>
      stdin_writes (ws_run (handleWebSocket_json dbFilename duckdbPath) es)
        = map (\<lambda>d. d @ newline) (text_frames es))"
proof (intro conjI impI)
  assume a: "stdin spawned = [] \<and> stdin_outcomes spawned = []"
  then show "stdin (constructor spawned)
      = [''.echo on'' @ newline, ''.timer on'' @ newline, initQueryHistoryTable_cmd @ newline]"
    by (simp add: constructor_def constructor_cmds_def stdin_write_def)
  from a show "stdin (snd (stdin_write (constructor spawned) (cmd @ newline)))
      = [''.echo on'' @ newline, ''.timer on'' @ newline, initQueryHistoryTable_cmd @ newline,
         cmd @ newline]"
    by (simp add: constructor_def constructor_cmds_def stdin_write_def)
next
  show "startsWith (dropWhile is_space initQueryHistoryTable_cmd)
     ''CREATE TABLE IF NOT EXISTS _query_history''"
    by (simp add: initQueryHistoryTable_cmd_def newline_def is_space_def)
next
  show "stdin_writes (handleWebSocket dbFilename) = []"
    by (simp add: handleWebSocket_def)
next
  show "stdin_writes (handleWebSocket_json dbFilename duckdbPath) = []"
    by (simp add: handleWebSocket_json_def)
next
  assume "Close \<notin> set es"
  then show "stdin_writes (ws_run (handleWebSocket dbFilename) es)
      = map (\<lambda>d. d @ newline) (text_frames es)"
    using ws_run_writes [of es "handleWebSocket dbFilename"]
    by (simp add: ws_run_def handleWebSocket_def)
next
  assume "Close \<notin> set es"
  then show "stdin_writes (ws_run (handleWebSocket_json dbFilename duckdbPath) es)
      = map (\<lambda>d. d @ newline) (text_frames es)"
    using ws_run_writes [of es "handleWebSocket_json dbFilename duckdbPath"]
    by (simp add: ws_run_def handleWebSocket_json_def)
qed

theorem init_commands_only_in_constructor_witness:
  "stdin (constructor \<lparr>stdin = [], stdin_outcomes = [],
       stdout = \<lparr>pending = [], ended = False\<rparr>, stderr = \<lparr>pending = [], ended = False\<rparr>\<rparr>)
     = [''.echo on'' @ newline, ''.timer on'' @ newline, initQueryHistoryTable_cmd @ newline] \<and>
   stdin_writes (ws_run (handleWebSocket '':memory:'')
       [Message (Text_frame ''SELECT 1;''), Chunk Stderr ''Error'']) = [''SELECT 1;'' @ newline]"
proof -
  let ?p = "\<lparr>stdin = [], stdin_outcomes = [],
       stdout = \<lparr>pending = [], ended = False\<rparr>, stderr = \<lparr>pending = [], ended = False\<rparr>\<rparr>"
  let ?es = "[Message (Text_frame ''SELECT 1;''), Chunk Stderr ''Error'']"
  have h1: "stdin ?p = [] \<and> stdin_outcomes ?p = []" by simp
  have h2: "Close \<notin> set ?es" by simp
  note inst = init_commands_only_in_constructor
    [where spawned = ?p and cmd = "''SELECT 1;''" and dbFilename = "'':memory:''"
       and duckdbPath = "''/tmp/duckdb''" and es = ?es]
  from inst h1 have a: "stdin (constructor ?p)
      = [''.echo on'' @ newline, ''.timer on'' @ newline, initQueryHistoryTable_cmd @ newline]"
    by blast
  from inst h2 have "stdin_writes (ws_run (handleWebSocket '':memory:'') ?es)
      = map (\<lambda>d. d @ newline) (text_frames ?es)"
    by blast
  then have b: "stdin_writes (ws_run (handleWebSocket '':memory:'') ?es) = [''SELECT 1;'' @ newline]"
    by simp
  from a b show ?thesis by blast
qed

text \<open>
  Claim C7 as stated fails for a WebSocket session: the first write to its process is the
  command of the client.
\<close>

theorem websocket_process_gets_no_init_commands:
  "stdin_writes (handleWebSocket '':memory:'') = [] \<and>
   stdin_writes (ws_run (handleWebSocket '':memory:'') [Message (Text_frame ''SELECT 1;'')])
     = [''SELECT 1;'' @ newline] \<and>
   ''SELECT 1;'' @ newline \<noteq> ''.timer on'' @ newline"
  by (simp add: handleWebSocket_def ws_run_def)


section \<open>\<open>getDuckDB\<close>\<close>





section \<open>The history table\<close>

lemma sql_split_plain:
  "CHR 0x27 \<notin> set x \<Longrightarrow> (in_literal \<or> CHR '','' \<notin> set x) \<Longrightarrow>
     sql_split in_literal cur (x @ rest) = sql_split in_literal (cur @ x) rest"
  by (induction x arbitrary: cur) auto

lemma sql_split_escaped:
  "sql_split True cur (escape_quotes t @ rest) = sql_split True (cur @ escape_quotes t) rest"
  by (induction t arbitrary: cur) (auto simp: escape_quotes_def)

lemma sql_split_literal:
  "sql_split False cur (quote @ escape_quotes t @ quote @ rest)
     = sql_split False (cur @ quote @ escape_quotes t @ quote) rest"
  by (simp add: quote_def sql_split_escaped)

lemma sql_split_literal_plain:
  "CHR 0x27 \<notin> set x \<Longrightarrow>
     sql_split False cur (quote @ x @ quote @ rest) = sql_split False (cur @ quote @ x @ quote) rest"
  by (simp add: quote_def sql_split_plain)

lemma split_plain_literal_comma:
  "CHR 0x27 \<notin> set x \<Longrightarrow>
     sql_split False cur (quote @ x @ quote @ CHR '','' # CHR '' '' # rest)
       = (cur @ quote @ x @ quote) # sql_split False '' '' rest"
  using sql_split_literal_plain [of x cur "CHR '','' # CHR '' '' # rest"] by simp

lemma split_escaped_literal_comma:
  "sql_split False cur (quote @ escape_quotes t @ quote @ CHR '','' # CHR '' '' # rest)
     = (cur @ quote @ escape_quotes t @ quote) # sql_split False '' '' rest"
  using sql_split_literal [of cur t "CHR '','' # CHR '' '' # rest"] by simp

lemma split_plain_comma:
  "CHR 0x27 \<notin> set x \<Longrightarrow> CHR '','' \<notin> set x \<Longrightarrow>
     sql_split False cur (x @ CHR '','' # CHR '' '' # rest) = (cur @ x) # sql_split False '' '' rest"
  using sql_split_plain [of x False cur "CHR '','' # CHR '' '' # rest"] by simp

lemma sql_split_insert_values:
  assumes "CHR 0x27 \<notin> set h" "CHR 0x27 \<notin> set f" "CHR 0x27 \<notin> set q" "CHR '','' \<notin> set q"
  shows "sql_split False [] (insert_values h t f q)
     = [quote @ h @ quote, '' '' @ quote @ escape_quotes t @ quote, '' '' @ quote @ f @ quote,
        '' '' @ q, '' CURRENT_TIMESTAMP'']"
  using assms
  by (simp add: insert_values_def split_plain_literal_comma split_escaped_literal_comma
      split_plain_comma)

lemma trim_no_space:
  assumes "s \<noteq> []" "\<not> is_space (hd s)" "\<not> is_space (last s)"
  shows "trim s = s"
proof -
  from assms have "dropWhile is_space s = s" by (cases s) auto
  moreover from assms have "dropWhile is_space (rev s) = rev s"
    by (cases "rev s") (auto simp: hd_rev)
  ultimately show ?thesis by (simp add: trim_def)
qed

lemma trim_leading_space: "trim ('' '' @ s) = trim s"
  by (simp add: trim_def is_space_def)

lemma trim_quoted: "trim (quote @ s @ quote) = quote @ s @ quote"
  by (rule trim_no_space) (simp_all add: quote_def is_space_def)


text \<open>
  Claim C9, as the code has it. The table has exactly the columns \<^verbatim>\<open>query_hash VARCHAR\<close>,
  \<^verbatim>\<open>query_text TEXT\<close>, \<^verbatim>\<open>result_file VARCHAR\<close>, \<^verbatim>\<open>query_time DOUBLE\<close> and
  \<^verbatim>\<open>execution_time TIMESTAMP\<close>, each defined by its name and type alone. Every insert names
  these five columns and gives five values: the hash, the text with its quotes doubled and
  the result file as string literals, the time, and \<^verbatim>\<open>CURRENT_TIMESTAMP\<close>. Read as SQL, the
  list splits into exactly these five values whatever the query text contains, as long as
  the hash, the file and the time contain no quote and the time no comma.
\<close>

theorem history_schema_and_insert:
  "column_defs initQueryHistoryTable_cmd
     = [[''query_hash'', ''VARCHAR''], [''query_text'', ''TEXT''], [''result_file'', ''VARCHAR''],
        [''query_time'', ''DOUBLE''], [''execution_time'', ''TIMESTAMP'']] \<and>
   insert_columns (saveQueryHistory_cmd queryHash queryText resultFile queryTime)
     = [''query_hash'', ''query_text'', ''result_file'', ''query_time'', ''execution_time''] \<and>
   saveQueryHistory_cmd queryHash queryText resultFile queryTime
     = newline @ ''      INSERT INTO _query_history (''
         @ join '', '' [''query_hash'', ''query_text'', ''result_file'', ''query_time'', ''execution_time'']
         @ '')'' @ newline
         @ ''      VALUES ('' @ insert_values queryHash queryText resultFile queryTime @ '');''
         @ newline @ ''    '' \<and>
   (CHR 0x27 \<notin> set queryHash \<and> CHR 0x27 \<notin> set resultFile \<and> CHR 0x27 \<notin> set queryTime \<and>
    CHR '','' \<notin> set queryTime
      \<longrightarrow> sql_values (insert_values queryHash queryText resultFile queryTime)
            = [quote @ queryHash @ quote, quote @ escape_quotes queryText @ quote,
               quote @ resultFile @ quote, trim queryTime, ''CURRENT_TIMESTAMP''])"
proof (intro conjI impI)
  show "column_defs initQueryHistoryTable_cmd
     = [[''query_hash'', ''VARCHAR''], [''query_text'', ''TEXT''], [''result_file'', ''VARCHAR''],
        [''query_time'', ''DOUBLE''], [''execution_time'', ''TIMESTAMP'']]"
    by code_simp
next
  show "insert_columns (saveQueryHistory_cmd queryHash queryText resultFile queryTime)
     = [''query_hash'', ''query_text'', ''result_file'', ''query_time'', ''execution_time'']"
    by (simp add: insert_columns_def saveQueryHistory_cmd_def after_open_paren_def newline_def
        split_on_def trim_def is_space_def)
next
  show "saveQueryHistory_cmd queryHash queryText resultFile queryTime
     = newline @ ''      INSERT INTO _query_history (''
         @ join '', '' [''query_hash'', ''query_text'', ''result_file'', ''query_time'', ''execution_time'']
         @ '')'' @ newline
         @ ''      VALUES ('' @ insert_values queryHash queryText resultFile queryTime @ '');''
         @ newline @ ''    ''"
    by (simp add: saveQueryHistory_cmd_def insert_values_def)
next
  assume "CHR 0x27 \<notin> set queryHash \<and> CHR 0x27 \<notin> set resultFile \<and> CHR 0x27 \<notin> set queryTime \<and>
    CHR '','' \<notin> set queryTime"
  then have "sql_split False [] (insert_values queryHash queryText resultFile queryTime)
     = [quote @ queryHash @ quote, '' '' @ quote @ escape_quotes queryText @ quote,
        '' '' @ quote @ resultFile @ quote, '' '' @ queryTime, '' CURRENT_TIMESTAMP'']"
    by (intro sql_split_insert_values) auto
  moreover have "trim '' CURRENT_TIMESTAMP'' = ''CURRENT_TIMESTAMP''"
    by (simp add: trim_def is_space_def)
  ultimately show "sql_values (insert_values queryHash queryText resultFile queryTime)
            = [quote @ queryHash @ quote, quote @ escape_quotes queryText @ quote,
               quote @ resultFile @ quote, trim queryTime, ''CURRENT_TIMESTAMP'']"
    using trim_leading_space trim_quoted by (simp add: sql_values_def del: append_Cons)
qed

theorem history_schema_and_insert_witness:
  "sql_values (insert_values ''9f2c'' (''SELECT '' @ quote @ ''a,b'' @ quote @ '';'') [] ''0.012'')
     = [quote @ ''9f2c'' @ quote,
        quote @ ''SELECT '' @ quote @ quote @ ''a,b'' @ quote @ quote @ '';'' @ quote,
        quote @ quote, ''0.012'', ''CURRENT_TIMESTAMP'']"
proof -
  have h: "CHR 0x27 \<notin> set ''9f2c'' \<and> CHR 0x27 \<notin> set [] \<and> CHR 0x27 \<notin> set ''0.012'' \<and>
      CHR '','' \<notin> set ''0.012''"
    by simp
  from history_schema_and_insert
    [where queryHash = "''9f2c''" and queryText = "''SELECT '' @ quote @ ''a,b'' @ quote @ '';''"
       and resultFile = "[]" and queryTime = "''0.012''"] h
  have "sql_values (insert_values ''9f2c'' (''SELECT '' @ quote @ ''a,b'' @ quote @ '';'') [] ''0.012'')
      = [quote @ ''9f2c'' @ quote,
         quote @ escape_quotes (''SELECT '' @ quote @ ''a,b'' @ quote @ '';'') @ quote,
         quote @ [] @ quote, trim ''0.012'', ''CURRENT_TIMESTAMP'']"
    by blast
  then show ?thesis
    by (simp add: escape_quotes_def quote_def trim_def is_space_def)
qed

text \<open>
  Claim C9 as stated fails for the default: the definition of \<^verbatim>\<open>execution_time\<close> is its
  name and type, and the statement has no \<^verbatim>\<open>DEFAULT\<close> clause.
\<close>

theorem execution_time_has_no_default:
  "column_defs initQueryHistoryTable_cmd ! 4 = [''execution_time'', ''TIMESTAMP''] \<and>
   \<not> includes_str initQueryHistoryTable_cmd ''DEFAULT''"
  by code_simp

end
